theory Spec2Isabelle
  imports Main
begin

section \<open>JavaScript values used by the ledger\<close>

text \<open>
  The program is JavaScript: addresses are strings, \<open>null\<close> (the mining reward) or whatever
  the caller passes, and the digest arguments are built with the \<open>+\<close> operator, which
  concatenates as soon as one operand is a string and adds numbers otherwise. Numbers are
  modelled as integers (amounts, timestamps and nonces of the program are integral and far
  below \<open>2^53\<close>); \<open>JNaN\<close> is the result of adding \<open>undefined\<close> to a number.
\<close>

datatype jsval = JUndefined | JNull | JStr string | JNum int | JNaN

text \<open>Exceptions: \<open>throw new Error(msg)\<close>, and the \<open>TypeError\<close> of the runtime.\<close>

datatype error = Error string | TypeError string

definition digit_char :: "nat \<Rightarrow> char" where
  "digit_char d = ''0123456789'' ! d"

function digits :: "nat \<Rightarrow> string" where
  "digits n = (if n < 10 then [digit_char n] else digits (n div 10) @ [digit_char (n mod 10)])"
  by pat_completeness auto
termination
  by (relation "measure id") auto

declare digits.simps [simp del]

text \<open>\<open>Number.prototype.toString\<close> on an integer.\<close>

definition Number_toString :: "int \<Rightarrow> string" where
  "Number_toString i = (if i < 0 then CHR ''-'' # digits (nat (- i)) else digits (nat i))"

fun js_toString :: "jsval \<Rightarrow> string" where
  "js_toString JUndefined = ''undefined''"
| "js_toString JNull = ''null''"
| "js_toString (JStr s) = s"
| "js_toString (JNum n) = Number_toString n"
| "js_toString JNaN = ''NaN''"

text \<open>
  The binary \<open>+\<close>: string concatenation when either operand is a string; otherwise numeric
  addition, where \<open>null\<close> counts as 0 and \<open>undefined\<close> as NaN.
\<close>

fun js_plus :: "jsval \<Rightarrow> jsval \<Rightarrow> jsval" where
  "js_plus (JStr s) b = JStr (s @ js_toString b)"
| "js_plus a (JStr t) = JStr (js_toString a @ t)"
| "js_plus (JNum m) (JNum n) = JNum (m + n)"
| "js_plus (JNum m) JNull = JNum m"
| "js_plus JNull (JNum n) = JNum n"
| "js_plus JNull JNull = JNum 0"
| "js_plus a b = JNaN"

text \<open>The operand of \<open>!\<close>: which values count as false.\<close>

fun js_falsy :: "jsval \<Rightarrow> bool" where
  "js_falsy JUndefined = True"
| "js_falsy JNull = True"
| "js_falsy (JStr s) = (s = [])"
| "js_falsy (JNum n) = (n = 0)"
| "js_falsy JNaN = True"

text \<open>\<open>===\<close>: equality of type and value; NaN equals nothing.\<close>

fun js_strict_eq :: "jsval \<Rightarrow> jsval \<Rightarrow> bool" where
  "js_strict_eq JNaN b = False"
| "js_strict_eq a b = (a = b)"

section \<open>JSON.stringify\<close>

definition hex_char :: "nat \<Rightarrow> char" where
  "hex_char d = ''0123456789abcdef'' ! d"

text \<open>The escape of one character inside a JSON string.\<close>

definition JSON_escape :: "char \<Rightarrow> string" where
  "JSON_escape c =
     (if c = CHR 0x08 then [CHR 0x5C, CHR ''b'']
      else if c = CHR 0x09 then [CHR 0x5C, CHR ''t'']
      else if c = CHR 0x0A then [CHR 0x5C, CHR ''n'']
      else if c = CHR 0x0C then [CHR 0x5C, CHR ''f'']
      else if c = CHR 0x0D then [CHR 0x5C, CHR ''r'']
      else if c = CHR 0x22 then [CHR 0x5C, CHR 0x22]
      else if c = CHR 0x5C then [CHR 0x5C, CHR 0x5C]
      else if of_char c < (32 :: nat)
        then [CHR 0x5C, CHR ''u'', CHR ''0'', CHR ''0'',
              hex_char (of_char c div 16), hex_char (of_char c mod 16)]
      else [c])"

definition JSON_quote :: "string \<Rightarrow> string" where
  "JSON_quote s = CHR 0x22 # concat (map JSON_escape s) @ [CHR 0x22]"

fun join :: "string \<Rightarrow> string list \<Rightarrow> string" where
  "join sep [] = []"
| "join sep [x] = x"
| "join sep (x # y # ys) = x @ sep @ join sep (y # ys)"

text \<open>
  A property value: \<open>None\<close> when the property is left out of the object (its value is
  \<open>undefined\<close>); NaN is written \<open>null\<close>.
\<close>

fun JSON_value :: "jsval \<Rightarrow> string option" where
  "JSON_value JUndefined = None"
| "JSON_value JNull = Some ''null''"
| "JSON_value (JStr s) = Some (JSON_quote s)"
| "JSON_value (JNum n) = Some (Number_toString n)"
| "JSON_value JNaN = Some ''null''"

fun JSON_member :: "string \<times> string option \<Rightarrow> string list" where
  "JSON_member (k, None) = []"
| "JSON_member (k, Some v) = [JSON_quote k @ '':'' @ v]"

definition JSON_object :: "(string \<times> string option) list \<Rightarrow> string" where
  "JSON_object ms = ''{'' @ join '','' (concat (map JSON_member ms)) @ ''}''"

definition JSON_array :: "string list \<Rightarrow> string" where
  "JSON_array vs = ''['' @ join '','' vs @ '']''"

section \<open>The libraries\<close>

text \<open>
  The digest and the signature scheme are the packages node-forge and elliptic, which are
  not part of the repository; the program is modelled over any implementation of them.
  \<^item> \<open>sha256 x\<close> is \<open>forge.md.sha256.create().update(x).digest().toHex()\<close>;
  \<^item> \<open>ec_verify pub msg sig\<close> is \<open>ec.keyFromPublic(pub, 'hex').verify(msg, sig)\<close>, which
    returns a boolean or throws (a public key that does not decode).
\<close>

record lib =
  sha256 :: "jsval \<Rightarrow> string"
  ec_verify :: "jsval \<Rightarrow> string \<Rightarrow> string \<Rightarrow> error + bool"

text \<open>
  The signing key handed to \<open>signTransaction\<close>, an elliptic key pair that contains a
  private key: \<open>getPublic\<close> is \<open>signingKey.getPublic("hex")\<close> and \<open>sign h\<close> is
  \<open>signingKey.sign(h, "base64").toDER("hex")\<close>.
\<close>

record signingKey =
  getPublic :: string
  sign :: "string \<Rightarrow> string"

section \<open>Transaction\<close>

text \<open>\<open>signature\<close> is \<open>None\<close> while the property is not set (the constructor leaves it out).\<close>

record Transaction =
  fromAddress :: jsval
  toAddress :: jsval
  amount :: int
  timestamp :: int
  signature :: "string option"

text \<open>The constructor; \<open>now\<close> is the value of \<open>Date.now()\<close>.\<close>

definition Transaction_new :: "int \<Rightarrow> jsval \<Rightarrow> jsval \<Rightarrow> int \<Rightarrow> Transaction" where
  "Transaction_new now from to amt =
     \<lparr>fromAddress = from, toAddress = to, amount = amt, timestamp = now, signature = None\<rparr>"

text \<open>The argument of the digest: \<open>this.fromAddress + this.toAddress + this.amount\<close>.\<close>

definition Transaction_hash_input :: "Transaction \<Rightarrow> jsval" where
  "Transaction_hash_input tx =
     js_plus (js_plus (fromAddress tx) (toAddress tx)) (JNum (amount tx))"

definition Transaction_calculateHash :: "lib \<Rightarrow> Transaction \<Rightarrow> string" where
  "Transaction_calculateHash l tx = sha256 l (Transaction_hash_input tx)"

definition signTransaction :: "lib \<Rightarrow> signingKey \<Rightarrow> Transaction \<Rightarrow> error + Transaction" where
  "signTransaction l key tx =
     (if js_strict_eq (JStr (getPublic key)) (fromAddress tx)
      then (let hashTx = Transaction_calculateHash l tx;
                sig = sign key hashTx
            in Inr (tx\<lparr>signature := Some sig\<rparr>))
      else Inl (Error
        ''Transaction cannot be signed because you have no privilege for this Transaction!''))"

definition Transaction_isValid :: "lib \<Rightarrow> Transaction \<Rightarrow> error + bool" where
  "Transaction_isValid l tx =
     (if js_strict_eq (fromAddress tx) JNull then Inr True
      else (case signature tx of
              None \<Rightarrow> Inl (Error ''Missing signature of Transaction!'')
            | Some sig \<Rightarrow>
                if length sig = 0 then Inl (Error ''Missing signature of Transaction!'')
                else ec_verify l (fromAddress tx) (Transaction_calculateHash l tx) sig))"

definition JSON_Transaction :: "Transaction \<Rightarrow> string" where
  "JSON_Transaction tx = JSON_object
     [(''fromAddress'', JSON_value (fromAddress tx)),
      (''toAddress'', JSON_value (toAddress tx)),
      (''amount'', Some (Number_toString (amount tx))),
      (''timestamp'', Some (Number_toString (Transaction.timestamp tx))),
      (''signature'', map_option JSON_quote (signature tx))]"

section \<open>Block\<close>

record Block =
  previousHash :: string
  timestamp :: int
  transactions :: "Transaction list"
  hash :: string
  nonce :: nat

text \<open>
  The argument of the block digest,
  \<open>this.index + this.previousHash + this.timestamp + JSON.stringify(this.data) + this.nonce\<close>.
  No Block has a property \<open>index\<close> or \<open>data\<close> (the constructor sets \<open>previousHash\<close>,
  \<open>timestamp\<close>, \<open>transactions\<close>, \<open>hash\<close> and \<open>nonce\<close>), so both reads give \<open>undefined\<close>,
  and \<open>JSON.stringify(undefined)\<close> is \<open>undefined\<close>. The nonce is passed as a value since the
  constructor computes the first hash before it assigns \<open>this.nonce\<close>.
\<close>

definition Block_hash_input :: "string \<Rightarrow> int \<Rightarrow> jsval \<Rightarrow> jsval" where
  "Block_hash_input prev ts nonce_value =
     js_plus (js_plus (js_plus (js_plus JUndefined (JStr prev)) (JNum ts)) JUndefined) nonce_value"

definition Block_calculateHash :: "lib \<Rightarrow> Block \<Rightarrow> string" where
  "Block_calculateHash l b =
     sha256 l (Block_hash_input (previousHash b) (Block.timestamp b) (JNum (int (nonce b))))"

text \<open>The constructor: \<open>this.hash = this.calculateHash()\<close> runs while \<open>this.nonce\<close> is undefined.\<close>

definition Block_new :: "lib \<Rightarrow> int \<Rightarrow> Transaction list \<Rightarrow> string \<Rightarrow> Block" where
  "Block_new l ts txs prev =
     \<lparr>previousHash = prev, timestamp = ts, transactions = txs,
      hash = sha256 l (Block_hash_input prev ts JUndefined), nonce = 0\<rparr>"

text \<open>
  The proof-of-work loop; \<open>None\<close> is a search that never ends. \<open>substring(0, difficulty)\<close>
  is \<open>take difficulty\<close> and \<open>Array(difficulty + 1).join("0")\<close> is \<open>difficulty\<close> zeros.
  (The \<open>console.log\<close> after the loop is not modelled.)
\<close>

definition mineBlock_body :: "lib \<Rightarrow> Block \<Rightarrow> Block" where
  \<comment> \<open>\<open>this.nonce++; this.hash = this.calculateHash();\<close>\<close>
  "mineBlock_body l b =
     (let b1 = b\<lparr>nonce := nonce b + 1\<rparr>
      in b1\<lparr>hash := Block_calculateHash l b1\<rparr>)"

partial_function (option) mineBlock :: "lib \<Rightarrow> nat \<Rightarrow> Block \<Rightarrow> Block option" where
  "mineBlock l difficulty b =
     (if take difficulty (hash b) \<noteq> replicate difficulty (CHR ''0'')
      then mineBlock l difficulty (mineBlock_body l b)
      else Some b)"

fun hasValidTransaction_loop :: "lib \<Rightarrow> Transaction list \<Rightarrow> error + bool" where
  "hasValidTransaction_loop l [] = Inr True"
| "hasValidTransaction_loop l (tx # rest) =
     (case Transaction_isValid l tx of
        Inl e \<Rightarrow> Inl e
      | Inr v \<Rightarrow> if v then hasValidTransaction_loop l rest else Inr False)"

definition hasValidTransaction :: "lib \<Rightarrow> Block \<Rightarrow> error + bool" where
  "hasValidTransaction l b = hasValidTransaction_loop l (transactions b)"

text \<open>
  A call \<open>currentBlock.name()\<close> whose result is tested as a boolean, as \<open>isChainValid\<close>
  makes one. Class Block defines \<open>calculateHash\<close>, \<open>mineBlock\<close> and
  \<open>hasValidTransaction\<close>, of which the last returns a boolean; a name that neither the
  class nor the object defines reads as \<open>undefined\<close>, and calling it throws a TypeError.
\<close>

definition Block_method :: "lib \<Rightarrow> string \<Rightarrow> (Block \<Rightarrow> error + bool) option" where
  "Block_method l name =
     (if name = ''hasValidTransaction'' then Some (hasValidTransaction l) else None)"

definition Block_call :: "lib \<Rightarrow> string \<Rightarrow> Block \<Rightarrow> error + bool" where
  "Block_call l name b =
     (case Block_method l name of
        None \<Rightarrow> Inl (TypeError (''currentBlock.'' @ name @ '' is not a function''))
      | Some m \<Rightarrow> m b)"

definition JSON_Block :: "Block \<Rightarrow> string" where
  "JSON_Block b = JSON_object
     [(''previousHash'', Some (JSON_quote (previousHash b))),
      (''timestamp'', Some (Number_toString (Block.timestamp b))),
      (''transactions'', Some (JSON_array (map JSON_Transaction (transactions b)))),
      (''hash'', Some (JSON_quote (hash b))),
      (''nonce'', Some (Number_toString (int (nonce b))))]"

section \<open>Blockchain\<close>

record Blockchain =
  chain :: "Block list"
  difficulty :: nat
  pendingTransactions :: "Transaction list"
  miningReward :: int

text \<open>\<open>Date.parse("2021-01-01")\<close> is 1609459200000.\<close>

definition createGenesisBlock :: "lib \<Rightarrow> Block" where
  "createGenesisBlock l = Block_new l 1609459200000 [] ''0''"

definition Blockchain_new :: "lib \<Rightarrow> Blockchain" where
  "Blockchain_new l =
     \<lparr>chain = [createGenesisBlock l], difficulty = 2, pendingTransactions = [],
      miningReward = 100\<rparr>"

text \<open>\<open>this.chain[this.chain.length - 1]\<close>: \<open>None\<close> is the \<open>undefined\<close> of an empty array.\<close>

definition getLatestBlock :: "Blockchain \<Rightarrow> Block option" where
  "getLatestBlock bc = (case chain bc of [] \<Rightarrow> None | b # bs \<Rightarrow> Some (last (b # bs)))"

text \<open>
  A mutator returns what the call did (\<open>Inl\<close> the exception thrown) together with the
  state it leaves. \<open>now_tx\<close> and \<open>now_block\<close> are the two readings of \<open>Date.now()\<close>.
  The outer \<open>None\<close> is a proof-of-work search that never ends.
\<close>

definition minePendingTransactions ::
  "lib \<Rightarrow> int \<Rightarrow> int \<Rightarrow> jsval \<Rightarrow> Blockchain \<Rightarrow> ((error + unit) \<times> Blockchain) option" where
  "minePendingTransactions l now_tx now_block miningRewardAddress bc =
     (let rewardTx = Transaction_new now_tx JNull miningRewardAddress (miningReward bc);
          bc1 = bc\<lparr>pendingTransactions := pendingTransactions bc @ [rewardTx]\<rparr>
      in case getLatestBlock bc1 of
           None \<Rightarrow>
             Some (Inl (TypeError
               ''Cannot read properties of undefined (reading 'hash')''), bc1)
         | Some latest \<Rightarrow>
             (case mineBlock l (difficulty bc1)
                     (Block_new l now_block (pendingTransactions bc1) (hash latest)) of
                None \<Rightarrow> None
              | Some block \<Rightarrow>
                  Some (Inr (), bc1\<lparr>chain := chain bc1 @ [block], pendingTransactions := []\<rparr>)))"

definition balance_step :: "jsval \<Rightarrow> Transaction \<Rightarrow> int \<Rightarrow> int" where
  "balance_step address tx balance =
     (let balance1 = (if js_strict_eq (fromAddress tx) address
                      then balance - amount tx else balance)
      in if js_strict_eq (toAddress tx) address then balance1 + amount tx else balance1)"

definition getBalanceOfAddress :: "Blockchain \<Rightarrow> jsval \<Rightarrow> int" where
  "getBalanceOfAddress bc address =
     fold (\<lambda>block balance. fold (balance_step address) (transactions block) balance)
       (chain bc) 0"

definition getAllTransactionsForWallet :: "Blockchain \<Rightarrow> jsval \<Rightarrow> Transaction list" where
  "getAllTransactionsForWallet bc address =
     filter (\<lambda>tx. js_strict_eq (fromAddress tx) address \<or> js_strict_eq (toAddress tx) address)
       (concat (map transactions (chain bc)))"

definition addTransaction :: "lib \<Rightarrow> Transaction \<Rightarrow> Blockchain \<Rightarrow> (error + unit) \<times> Blockchain" where
  "addTransaction l transaction bc =
     (if js_falsy (fromAddress transaction) \<or> js_falsy (toAddress transaction)
      then (Inl (Error ''Transaction must include from and to address''), bc)
      else (case Transaction_isValid l transaction of
              Inl e \<Rightarrow> (Inl e, bc)
            | Inr v \<Rightarrow>
                if v then
                  (if amount transaction \<le> 0
                   then (Inl (Error ''Transaction amount should be higher than 0''), bc)
                   else if getBalanceOfAddress bc (fromAddress transaction) < amount transaction
                   then (Inl (Error ''Not enough balance''), bc)
                   else (Inr (),
                         bc\<lparr>pendingTransactions := pendingTransactions bc @ [transaction]\<rparr>))
                else (Inl (Error ''Cannot add invalid transaction to chain''), bc)))"

text \<open>
  The loop of \<open>isChainValid\<close> over the blocks from index 1 on. Its first statement calls
  \<open>currentBlock.hasValidTransactions()\<close>.
\<close>

fun isChainValid_loop :: "lib \<Rightarrow> Block list \<Rightarrow> error + bool" where
  "isChainValid_loop l [] = Inr True"
| "isChainValid_loop l (currentBlock # rest) =
     (case Block_call l ''hasValidTransactions'' currentBlock of
        Inl e \<Rightarrow> Inl e
      | Inr v \<Rightarrow>
          if v then
            (if hash currentBlock \<noteq> Block_calculateHash l currentBlock then Inr False
             else isChainValid_loop l rest)
          else Inr False)"

text \<open>
  \<open>JSON.stringify(this.chain[0])\<close> of an empty chain is \<open>undefined\<close>, which differs from
  the string \<open>realGenesis\<close>.
\<close>

definition isChainValid :: "lib \<Rightarrow> Blockchain \<Rightarrow> error + bool" where
  "isChainValid l bc =
     (let realGenesis = JSON_Block (createGenesisBlock l)
      in case chain bc of
           [] \<Rightarrow> Inr False
         | genesis # rest \<Rightarrow>
             if realGenesis \<noteq> JSON_Block genesis then Inr False
             else isChainValid_loop l rest)"

section \<open>A small implementation of the libraries\<close>

text \<open>
  The theorems below hold for every implementation of the digest and of the signature
  scheme. To run them on concrete chains they are instantiated with this one: the digest of
  a value is the last character of its string, twice, and the signature of \<open>h\<close> under
  the key with public identifier \<open>p\<close> is \<open>p\<close> followed by \<open>h\<close>.
\<close>

definition test_lib :: lib where
  "test_lib =
     \<lparr>sha256 = (\<lambda>x. [last (js_toString x), last (js_toString x)]),
      ec_verify = (\<lambda>pub msg sig.
         case pub of
           JStr p \<Rightarrow> Inr (sig = p @ msg)
         | _ \<Rightarrow> Inl (Error ''Unknown point format''))\<rparr>"

definition test_key :: signingKey where
  "test_key = \<lparr>getPublic = ''04ab'', sign = (\<lambda>h. ''04ab'' @ h)\<rparr>"

text \<open>
  The chain that \<open>minePendingTransactions\<close> makes of the new chain under \<open>test_lib\<close>,
  with the reward sent to \<open>04ab\<close> (see \<open>minePendingTransactions_spec_witness\<close>).
\<close>

definition test_chain :: Blockchain where
  "test_chain =
     \<lparr>chain = [createGenesisBlock test_lib,
               \<lparr>previousHash = ''dd'', timestamp = 2,
                  transactions = [Transaction_new 1 JNull (JStr ''04ab'') 100],
                  hash = ''00'', nonce = 10\<rparr>],
      difficulty = 2, pendingTransactions = [], miningReward = 100\<rparr>"

section \<open>Evaluation and the JavaScript operators\<close>

lemmas number_eval = Number_toString_def digits.simps digit_char_def

lemma replicate_2: "replicate 2 x = [x, x]"
  by (simp add: numeral_2_eq_2)

lemma js_strict_eq_JNull: "js_strict_eq a JNull = (a = JNull)"
  by (cases a) auto

lemma js_strict_eq_JStr: "js_strict_eq (JStr s) a = (a = JStr s)"
  by (cases a) auto

section \<open>Properties of Transaction\<close>

text \<open>
  C9. The digest of a transaction is computed from \<open>fromAddress\<close>, \<open>toAddress\<close> and
  \<open>amount\<close> only: two transactions that agree on the three have the same digest, whatever
  their timestamps and signatures are.
\<close>

theorem Transaction_calculateHash_fields:
  "fromAddress t1 = fromAddress t2 \<Longrightarrow> toAddress t1 = toAddress t2 \<Longrightarrow> amount t1 = amount t2
   \<Longrightarrow> Transaction_calculateHash l t1 = Transaction_calculateHash l t2"
  by (simp add: Transaction_calculateHash_def Transaction_hash_input_def)

theorem Transaction_calculateHash_fields_witness:
  "Transaction_calculateHash test_lib (Transaction_new 1000 (JStr ''04ab'') (JStr ''04cd'') 50)
     = Transaction_calculateHash test_lib
         ((Transaction_new 2000 (JStr ''04ab'') (JStr ''04cd'') 50)\<lparr>signature := Some ''3045''\<rparr>)
   \<and> Transaction_calculateHash test_lib
         (Transaction_new 1000 (JStr ''04ab'') (JStr ''04cd'') 50) = ''00''"
proof -
  have "Transaction_calculateHash test_lib
          (Transaction_new 1000 (JStr ''04ab'') (JStr ''04cd'') 50)
     = Transaction_calculateHash test_lib
         ((Transaction_new 2000 (JStr ''04ab'') (JStr ''04cd'') 50)\<lparr>signature := Some ''3045''\<rparr>)"
    by (rule Transaction_calculateHash_fields) (simp_all add: Transaction_new_def)
  moreover have "Transaction_calculateHash test_lib
          (Transaction_new 1000 (JStr ''04ab'') (JStr ''04cd'') 50) = ''00''"
    by (simp add: Transaction_calculateHash_def Transaction_hash_input_def Transaction_new_def
        test_lib_def number_eval)
  ultimately show ?thesis by simp
qed

text \<open>
  C6. \<open>isValid\<close> returns true when the sender is \<open>null\<close>; otherwise it throws the
  missing-signature error when the signature is absent or empty; otherwise its result is
  the result of the library's verification of the stored signature under the sender as
  public key, over the digest of the transaction.
\<close>

theorem Transaction_isValid_cases:
  "(fromAddress tx = JNull \<longrightarrow> Transaction_isValid l tx = Inr True) \<and>
   (fromAddress tx \<noteq> JNull \<and> (signature tx = None \<or> signature tx = Some [])
      \<longrightarrow> Transaction_isValid l tx = Inl (Error ''Missing signature of Transaction!'')) \<and>
   (fromAddress tx \<noteq> JNull \<and> signature tx = Some sg \<and> sg \<noteq> []
      \<longrightarrow> Transaction_isValid l tx
            = ec_verify l (fromAddress tx) (Transaction_calculateHash l tx) sg)"
  by (auto simp: Transaction_isValid_def js_strict_eq_JNull)

theorem Transaction_isValid_cases_witness:
  "Transaction_isValid test_lib (Transaction_new 1 JNull (JStr ''04cd'') 100) = Inr True \<and>
   Transaction_isValid test_lib (Transaction_new 1 (JStr ''04ab'') (JStr ''04cd'') 50)
     = Inl (Error ''Missing signature of Transaction!'') \<and>
   Transaction_isValid test_lib
     ((Transaction_new 1 (JStr ''04ab'') (JStr ''04cd'') 50)\<lparr>signature := Some ''04ab00''\<rparr>)
     = Inr True \<and>
   Transaction_isValid test_lib
     ((Transaction_new 1 (JStr ''04ab'') (JStr ''04cd'') 50)\<lparr>signature := Some ''04ab11''\<rparr>)
     = Inr False"
proof -
  show ?thesis
    using Transaction_isValid_cases [of "Transaction_new 1 JNull (JStr ''04cd'') 100" test_lib]
      Transaction_isValid_cases
        [of "Transaction_new 1 (JStr ''04ab'') (JStr ''04cd'') 50" test_lib]
      Transaction_isValid_cases
        [of "(Transaction_new 1 (JStr ''04ab'') (JStr ''04cd'') 50)\<lparr>signature := Some ''04ab00''\<rparr>"
            test_lib "''04ab00''"]
      Transaction_isValid_cases
        [of "(Transaction_new 1 (JStr ''04ab'') (JStr ''04cd'') 50)\<lparr>signature := Some ''04ab11''\<rparr>"
            test_lib "''04ab11''"]
    by (simp add: Transaction_new_def Transaction_calculateHash_def Transaction_hash_input_def
        test_lib_def number_eval)
qed

text \<open>
  C7. \<open>signTransaction\<close> throws exactly when the public identifier of the signing key is
  not the sender of the transaction; when it is, the result is the transaction with its
  \<open>signature\<close> set to the key's signature over the digest, every other field as before.
\<close>

theorem signTransaction_spec:
  "(isl (signTransaction l key tx) \<longleftrightarrow> fromAddress tx \<noteq> JStr (getPublic key)) \<and>
   (fromAddress tx \<noteq> JStr (getPublic key) \<longrightarrow>
      signTransaction l key tx = Inl (Error
        ''Transaction cannot be signed because you have no privilege for this Transaction!'')) \<and>
   (fromAddress tx = JStr (getPublic key) \<longrightarrow>
      signTransaction l key tx
        = Inr (tx\<lparr>signature := Some (sign key (Transaction_calculateHash l tx))\<rparr>))"
  by (simp add: signTransaction_def js_strict_eq_JStr)

theorem signTransaction_spec_witness:
  "signTransaction test_lib test_key (Transaction_new 1 (JStr ''04ab'') (JStr ''04cd'') 50)
     = Inr \<lparr>fromAddress = JStr ''04ab'', toAddress = JStr ''04cd'', amount = 50,
            timestamp = 1, signature = Some ''04ab00''\<rparr> \<and>
   signTransaction test_lib test_key (Transaction_new 1 (JStr ''04ff'') (JStr ''04cd'') 50)
     = Inl (Error
        ''Transaction cannot be signed because you have no privilege for this Transaction!'')"
proof -
  show ?thesis
    using signTransaction_spec
        [of test_lib test_key "Transaction_new 1 (JStr ''04ab'') (JStr ''04cd'') 50"]
      signTransaction_spec
        [of test_lib test_key "Transaction_new 1 (JStr ''04ff'') (JStr ''04cd'') 50"]
    by (simp add: Transaction_new_def test_key_def Transaction_calculateHash_def
        Transaction_hash_input_def test_lib_def number_eval)
qed

section \<open>Properties of Block\<close>

lemma Block_hash_input_string:
  "Block_hash_input prev ts (JNum n)
     = JStr (''undefined'' @ prev @ Number_toString ts @ ''undefined'' @ Number_toString n)"
  by (simp add: Block_hash_input_def)

text \<open>
  C2. The digest of a block is computed from \<open>previousHash\<close>, \<open>timestamp\<close> and \<open>nonce\<close>:
  its argument is the string \<open>undefined\<close>, the previous hash, the timestamp, the string
  \<open>undefined\<close> again and the nonce. The transactions of the block are not part of it, so
  replacing them by any others leaves the digest as it was.
\<close>

theorem Block_calculateHash_ignores_transactions:
  "Block_calculateHash l (b\<lparr>transactions := txs\<rparr>) = Block_calculateHash l b \<and>
   Block_calculateHash l b
     = sha256 l (JStr (''undefined'' @ previousHash b @ Number_toString (Block.timestamp b)
                        @ ''undefined'' @ Number_toString (int (nonce b))))"
  by (simp add: Block_calculateHash_def Block_hash_input_string)

subsection \<open>Proof of work\<close>

lemma mineBlock_Some_zeros:
  assumes "mineBlock l d b = Some b'"
  shows "take d (hash b') = replicate d (CHR ''0'')"
proof (rule mineBlock.raw_induct
    [where P = "\<lambda>l d b b'. take d (hash b') = replicate d (CHR ''0'')", OF _ assms])
  fix mine l d b b'
  assume "\<And>l d b y. mine l d b = Some y \<Longrightarrow> take d (hash y) = replicate d (CHR ''0'')"
    and "(if take d (hash b) \<noteq> replicate d (CHR ''0'')
          then mine l d (mineBlock_body l b) else Some b) = Some b'"
  then show "take d (hash b') = replicate d (CHR ''0'')"
    by (auto split: if_splits)
qed

lemma mineBlock_body_fields:
  "previousHash (mineBlock_body l b) = previousHash b \<and>
   Block.timestamp (mineBlock_body l b) = Block.timestamp b \<and>
   transactions (mineBlock_body l b) = transactions b \<and>
   nonce (mineBlock_body l b) = nonce b + 1"
  by (simp add: mineBlock_body_def Let_def)

text \<open>A search that returns has run the loop body some number of times.\<close>

lemma mineBlock_Some_iterate:
  assumes "mineBlock l d b = Some b'"
  shows "\<exists>k. b' = (mineBlock_body l ^^ k) b"
proof (rule mineBlock.raw_induct
    [where P = "\<lambda>l d b b'. \<exists>k. b' = (mineBlock_body l ^^ k) b", OF _ assms])
  fix mine l d b b'
  assume IH: "\<And>l d b y. mine l d b = Some y \<Longrightarrow> \<exists>k. y = (mineBlock_body l ^^ k) b"
    and eq: "(if take d (hash b) \<noteq> replicate d (CHR ''0'')
          then mine l d (mineBlock_body l b) else Some b) = Some b'"
  show "\<exists>k. b' = (mineBlock_body l ^^ k) b"
  proof (cases "take d (hash b) = replicate d (CHR ''0'')")
    case True
    with eq have "b' = (mineBlock_body l ^^ 0) b" by simp
    then show ?thesis by blast
  next
    case False
    with eq have "mine l d (mineBlock_body l b) = Some b'" by simp
    from IH[OF this] obtain k where "b' = (mineBlock_body l ^^ k) (mineBlock_body l b)" ..
    then have "b' = (mineBlock_body l ^^ Suc k) b" by (simp add: funpow_swap1)
    then show ?thesis by blast
  qed
qed

lemma mineBlock_body_iterate_fields:
  "previousHash ((mineBlock_body l ^^ k) b) = previousHash b \<and>
   Block.timestamp ((mineBlock_body l ^^ k) b) = Block.timestamp b \<and>
   transactions ((mineBlock_body l ^^ k) b) = transactions b \<and>
   nonce ((mineBlock_body l ^^ k) b) = nonce b + k"
  by (induction k) (simp_all add: mineBlock_body_fields)

lemma mineBlock_Some_fields:
  assumes "mineBlock l d b = Some b'"
  shows "previousHash b' = previousHash b \<and> Block.timestamp b' = Block.timestamp b \<and>
     transactions b' = transactions b"
  using mineBlock_Some_iterate[OF assms] by (auto simp: mineBlock_body_iterate_fields)

lemma mineBlock_zero: "mineBlock l 0 b = Some b"
  by (subst mineBlock.simps) simp

text \<open>The search returns as soon as some number of runs of the loop body reaches the target.\<close>

lemma mineBlock_found:
  "take d (hash ((mineBlock_body l ^^ k) b)) = replicate d (CHR ''0'')
   \<Longrightarrow> \<exists>b'. mineBlock l d b = Some b'"
proof (induction k arbitrary: b)
  case 0
  then show ?case by (subst mineBlock.simps) simp
next
  case (Suc k)
  show ?case
  proof (cases "take d (hash b) = replicate d (CHR ''0'')")
    case True
    then show ?thesis by (subst mineBlock.simps) simp
  next
    case False
    from Suc.prems
    have "take d (hash ((mineBlock_body l ^^ k) (mineBlock_body l b))) = replicate d (CHR ''0'')"
      by (simp add: funpow_swap1)
    from Suc.IH[OF this] obtain b' where "mineBlock l d (mineBlock_body l b) = Some b'" ..
    with False show ?thesis by (subst mineBlock.simps) simp
  qed
qed

lemmas mine_eval = mineBlock.simps mineBlock_body_def Block_new_def Block_calculateHash_def
  Block_hash_input_def test_lib_def number_eval Let_def replicate_2

text \<open>
  C8. When \<open>mineBlock\<close> returns, the first \<open>difficulty\<close> characters of the hash of the
  block are all the digit zero (and the hash has that many characters). With difficulty 0
  the call returns at once and leaves the block, hence its nonce, as it was; with
  difficulty 2 the hash of the returned block starts with \<open>00\<close>.
\<close>

theorem mineBlock_leading_zeros:
  "(mineBlock l d b = Some b' \<longrightarrow>
      take d (hash b') = replicate d (CHR ''0'') \<and> d \<le> length (hash b')) \<and>
   mineBlock l 0 b = Some b \<and>
   (mineBlock l 2 b = Some b' \<longrightarrow> take 2 (hash b') = ''00'')"
proof (intro conjI impI)
  assume m: "mineBlock l d b = Some b'"
  then show z: "take d (hash b') = replicate d (CHR ''0'')" by (rule mineBlock_Some_zeros)
  have "length (take d (hash b')) = d" by (simp add: z)
  then show "d \<le> length (hash b')" by simp
next
  show "mineBlock l 0 b = Some b" by (rule mineBlock_zero)
next
  assume "mineBlock l 2 b = Some b'"
  then have "take 2 (hash b') = replicate 2 (CHR ''0'')" by (rule mineBlock_Some_zeros)
  then show "take 2 (hash b') = ''00''" by (simp add: replicate_2)
qed

theorem mineBlock_leading_zeros_witness:
  "mineBlock test_lib 2 (Block_new test_lib 2 [] ''dd'')
     = Some \<lparr>previousHash = ''dd'', timestamp = 2, transactions = [], hash = ''00'', nonce = 10\<rparr> \<and>
   take 2 (hash \<lparr>previousHash = ''dd'', timestamp = 2, transactions = [], hash = ''00'',
                 nonce = 10\<rparr>) = ''00'' \<and>
   mineBlock test_lib 0 (Block_new test_lib 2 [] ''dd'') = Some (Block_new test_lib 2 [] ''dd'')"
proof -
  have m: "mineBlock test_lib 2 (Block_new test_lib 2 [] ''dd'')
     = Some \<lparr>previousHash = ''dd'', timestamp = 2, transactions = [], hash = ''00'', nonce = 10\<rparr>"
    by (simp add: mine_eval)
  from m mineBlock_leading_zeros
      [of test_lib 2 "Block_new test_lib 2 [] ''dd''"
          "\<lparr>previousHash = ''dd'', timestamp = 2, transactions = [], hash = ''00'', nonce = 10\<rparr>"]
  show ?thesis by blast
qed

section \<open>Properties of Blockchain\<close>

subsection \<open>Adding a transaction\<close>

lemma getBalanceOfAddress_chain:
  "chain bc1 = chain bc2 \<Longrightarrow> getBalanceOfAddress bc1 a = getBalanceOfAddress bc2 a"
  by (simp add: getBalanceOfAddress_def)

lemma addTransaction_error_state:
  "addTransaction l tx bc = (Inl e, bc') \<Longrightarrow> bc' = bc"
  by (auto simp: addTransaction_def split: if_splits sum.splits)

lemma addTransaction_success_iff:
  "fst (addTransaction l tx bc) = Inr () \<longleftrightarrow>
     (\<not> js_falsy (fromAddress tx) \<and> \<not> js_falsy (toAddress tx) \<and>
      Transaction_isValid l tx = Inr True \<and> 0 < amount tx \<and>
      amount tx \<le> getBalanceOfAddress bc (fromAddress tx))"
  by (auto simp: addTransaction_def split: if_splits sum.splits)

lemma addTransaction_success_state:
  "addTransaction l tx bc = (Inr u, bc') \<Longrightarrow>
     bc' = bc\<lparr>pendingTransactions := pendingTransactions bc @ [tx]\<rparr>"
  by (auto simp: addTransaction_def split: if_splits sum.splits)

lemma addTransaction_chain: "chain (snd (addTransaction l tx bc)) = chain bc"
  by (auto simp: addTransaction_def split: if_splits sum.splits)

text \<open>
  C5. \<open>addTransaction\<close> throws when the sender or the recipient is missing, when
  \<open>isValid\<close> is false, when the amount is not positive, or when the balance of the sender
  on the chain is below the amount; a call that throws leaves the state as it was; a call
  that returns has appended the transaction to the pending queue and changed nothing else.
  It returns exactly when all five checks pass. The chain is never changed, and the balance
  does not depend on the pending queue.
\<close>

theorem addTransaction_spec:
  "(js_falsy (fromAddress tx) \<or> js_falsy (toAddress tx) \<or> Transaction_isValid l tx = Inr False \<or>
    amount tx \<le> 0 \<or> getBalanceOfAddress bc (fromAddress tx) < amount tx
      \<longrightarrow> (\<exists>e. addTransaction l tx bc = (Inl e, bc))) \<and>
   (\<forall>e bc'. addTransaction l tx bc = (Inl e, bc') \<longrightarrow> bc' = bc) \<and>
   (\<forall>bc'. addTransaction l tx bc = (Inr (), bc') \<longrightarrow>
      bc' = bc\<lparr>pendingTransactions := pendingTransactions bc @ [tx]\<rparr>) \<and>
   (fst (addTransaction l tx bc) = Inr () \<longleftrightarrow>
      (\<not> js_falsy (fromAddress tx) \<and> \<not> js_falsy (toAddress tx) \<and>
       Transaction_isValid l tx = Inr True \<and> 0 < amount tx \<and>
       amount tx \<le> getBalanceOfAddress bc (fromAddress tx))) \<and>
   chain (snd (addTransaction l tx bc)) = chain bc \<and>
   getBalanceOfAddress (bc\<lparr>pendingTransactions := p\<rparr>) a = getBalanceOfAddress bc a"
proof (intro conjI allI impI)
  assume c: "js_falsy (fromAddress tx) \<or> js_falsy (toAddress tx) \<or>
    Transaction_isValid l tx = Inr False \<or> amount tx \<le> 0 \<or>
    getBalanceOfAddress bc (fromAddress tx) < amount tx"
  then have "fst (addTransaction l tx bc) \<noteq> Inr ()"
    by (auto simp: addTransaction_success_iff)
  then obtain e bc' where r: "addTransaction l tx bc = (Inl e, bc')"
    by (cases "addTransaction l tx bc"; cases "fst (addTransaction l tx bc)") auto
  with addTransaction_error_state[OF r] show "\<exists>e. addTransaction l tx bc = (Inl e, bc)"
    by blast
next
  fix e bc' assume "addTransaction l tx bc = (Inl e, bc')"
  then show "bc' = bc" by (rule addTransaction_error_state)
next
  fix bc' assume "addTransaction l tx bc = (Inr (), bc')"
  then show "bc' = bc\<lparr>pendingTransactions := pendingTransactions bc @ [tx]\<rparr>"
    by (rule addTransaction_success_state)
next
  show "fst (addTransaction l tx bc) = Inr () \<longleftrightarrow>
      (\<not> js_falsy (fromAddress tx) \<and> \<not> js_falsy (toAddress tx) \<and>
       Transaction_isValid l tx = Inr True \<and> 0 < amount tx \<and>
       amount tx \<le> getBalanceOfAddress bc (fromAddress tx))"
    by (rule addTransaction_success_iff)
next
  show "chain (snd (addTransaction l tx bc)) = chain bc" by (rule addTransaction_chain)
next
  show "getBalanceOfAddress (bc\<lparr>pendingTransactions := p\<rparr>) a = getBalanceOfAddress bc a"
    by (simp add: getBalanceOfAddress_def)
qed

lemmas tx_eval = Transaction_isValid_def Transaction_calculateHash_def Transaction_hash_input_def
  Transaction_new_def test_lib_def number_eval

lemma test_chain_balance: "getBalanceOfAddress test_chain (JStr ''04ab'') = 100"
  by (simp add: getBalanceOfAddress_def test_chain_def createGenesisBlock_def Block_new_def
      balance_step_def Transaction_new_def)

theorem addTransaction_spec_witness:
  "addTransaction test_lib
     \<lparr>fromAddress = JStr ''04ab'', toAddress = JStr ''04cd'', amount = 50, timestamp = 3,
        signature = Some ''04ab00''\<rparr> test_chain
     = (Inr (), test_chain\<lparr>pendingTransactions :=
          [\<lparr>fromAddress = JStr ''04ab'', toAddress = JStr ''04cd'', amount = 50, timestamp = 3,
             signature = Some ''04ab00''\<rparr>]\<rparr>) \<and>
   getBalanceOfAddress test_chain (JStr ''04ab'') < 500 \<and>
   addTransaction test_lib
     \<lparr>fromAddress = JStr ''04ab'', toAddress = JStr ''04cd'', amount = 500, timestamp = 3,
        signature = Some ''04ab00''\<rparr> test_chain
     = (Inl (Error ''Not enough balance''), test_chain) \<and>
   Transaction_isValid test_lib
     \<lparr>fromAddress = JStr ''04ab'', toAddress = JStr ''04cd'', amount = 50, timestamp = 3,
        signature = Some ''04ab11''\<rparr> = Inr False \<and>
   addTransaction test_lib
     \<lparr>fromAddress = JStr ''04ab'', toAddress = JStr ''04cd'', amount = 50, timestamp = 3,
        signature = Some ''04ab11''\<rparr> test_chain
     = (Inl (Error ''Cannot add invalid transaction to chain''), test_chain)"
proof -
  let ?ok = "\<lparr>fromAddress = JStr ''04ab'', toAddress = JStr ''04cd'', amount = 50, timestamp = 3,
        signature = Some ''04ab00''\<rparr>"
  let ?big = "\<lparr>fromAddress = JStr ''04ab'', toAddress = JStr ''04cd'', amount = 500,
        timestamp = 3, signature = Some ''04ab00''\<rparr>"
  let ?bad = "\<lparr>fromAddress = JStr ''04ab'', toAddress = JStr ''04cd'', amount = 50, timestamp = 3,
        signature = Some ''04ab11''\<rparr>"
  have v_ok: "Transaction_isValid test_lib ?ok = Inr True"
    and v_big: "Transaction_isValid test_lib ?big = Inr True"
    and v_bad: "Transaction_isValid test_lib ?bad = Inr False"
    by (simp_all add: tx_eval)
  have pass: "fst (addTransaction test_lib ?ok test_chain) = Inr ()"
    using addTransaction_spec [of ?ok test_lib test_chain] v_ok test_chain_balance by simp
  then have "addTransaction test_lib ?ok test_chain
               = (Inr (), snd (addTransaction test_lib ?ok test_chain))"
    by (simp add: prod_eq_iff)
  with addTransaction_spec [of ?ok test_lib test_chain]
  have 1: "addTransaction test_lib ?ok test_chain
             = (Inr (), test_chain\<lparr>pendingTransactions := [?ok]\<rparr>)"
    by (simp add: test_chain_def)
  have 2: "addTransaction test_lib ?big test_chain = (Inl (Error ''Not enough balance''), test_chain)"
    using v_big test_chain_balance by (simp add: addTransaction_def)
  have 3: "addTransaction test_lib ?bad test_chain
             = (Inl (Error ''Cannot add invalid transaction to chain''), test_chain)"
    using v_bad by (simp add: addTransaction_def)
  from 1 2 3 v_bad test_chain_balance show ?thesis by simp
qed


text \<open>
  C10. A transaction whose sender is \<open>null\<close>, \<open>undefined\<close> or the empty string is refused
  by \<open>addTransaction\<close> with the missing-address error, the state unchanged. So a call of
  \<open>addTransaction\<close> that returns was not given a reward transaction, and every transaction
  without a sender in the pending queue after the call was in the queue before it.
\<close>

theorem addTransaction_rejects_empty_sender:
  "(js_falsy (fromAddress tx) \<longrightarrow>
      addTransaction l tx bc
        = (Inl (Error ''Transaction must include from and to address''), bc)) \<and>
   (fst (addTransaction l tx bc) = Inr () \<longrightarrow> fromAddress tx \<noteq> JNull) \<and>
   (\<forall>t \<in> set (pendingTransactions (snd (addTransaction l tx bc))).
      js_falsy (fromAddress t) \<longrightarrow> t \<in> set (pendingTransactions bc))"
proof (intro conjI impI ballI)
  assume "js_falsy (fromAddress tx)"
  then show "addTransaction l tx bc
        = (Inl (Error ''Transaction must include from and to address''), bc)"
    by (simp add: addTransaction_def)
next
  assume "fst (addTransaction l tx bc) = Inr ()"
  then have "\<not> js_falsy (fromAddress tx)" by (simp add: addTransaction_success_iff)
  then show "fromAddress tx \<noteq> JNull" by auto
next
  fix t
  assume t: "t \<in> set (pendingTransactions (snd (addTransaction l tx bc)))"
    and f: "js_falsy (fromAddress t)"
  show "t \<in> set (pendingTransactions bc)"
  proof (cases "fst (addTransaction l tx bc)")
    case (Inl e)
    then have "addTransaction l tx bc = (Inl e, snd (addTransaction l tx bc))"
      by (simp add: prod_eq_iff)
    from addTransaction_error_state[OF this] t show ?thesis by simp
  next
    case (Inr u)
    then have r: "addTransaction l tx bc = (Inr u, snd (addTransaction l tx bc))"
      by (simp add: prod_eq_iff)
    from Inr have "\<not> js_falsy (fromAddress tx)" by (simp add: addTransaction_success_iff)
    with f have "t \<noteq> tx" by auto
    with addTransaction_success_state[OF r] t show ?thesis by auto
  qed
qed


theorem addTransaction_rejects_empty_sender_witness:
  "js_falsy JNull \<and> js_falsy JUndefined \<and> js_falsy (JStr '''') \<and>
   addTransaction test_lib (Transaction_new 3 JNull (JStr ''04ab'') 100) test_chain
     = (Inl (Error ''Transaction must include from and to address''), test_chain) \<and>
   addTransaction test_lib (Transaction_new 3 JUndefined (JStr ''04ab'') 100) test_chain
     = (Inl (Error ''Transaction must include from and to address''), test_chain) \<and>
   addTransaction test_lib (Transaction_new 3 (JStr '''') (JStr ''04ab'') 100) test_chain
     = (Inl (Error ''Transaction must include from and to address''), test_chain) \<and>
   fst (addTransaction test_lib
          \<lparr>fromAddress = JStr ''04ab'', toAddress = JStr ''04cd'', amount = 50, timestamp = 3,
             signature = Some ''04ab00''\<rparr> test_chain) = Inr () \<and>
   JStr ''04ab'' \<noteq> JNull"
proof -
  let ?ok = "\<lparr>fromAddress = JStr ''04ab'', toAddress = JStr ''04cd'', amount = 50, timestamp = 3,
        signature = Some ''04ab00''\<rparr>"
  have "addTransaction test_lib (Transaction_new 3 JNull (JStr ''04ab'') 100) test_chain
     = (Inl (Error ''Transaction must include from and to address''), test_chain)"
    using addTransaction_rejects_empty_sender
          [of "Transaction_new 3 JNull (JStr ''04ab'') 100" test_lib test_chain, THEN conjunct1]
    by (simp add: Transaction_new_def)
  moreover
  have "addTransaction test_lib (Transaction_new 3 JUndefined (JStr ''04ab'') 100) test_chain
     = (Inl (Error ''Transaction must include from and to address''), test_chain)"
    using addTransaction_rejects_empty_sender
          [of "Transaction_new 3 JUndefined (JStr ''04ab'') 100" test_lib test_chain,
           THEN conjunct1]
    by (simp add: Transaction_new_def)
  moreover
  have "addTransaction test_lib (Transaction_new 3 (JStr '''') (JStr ''04ab'') 100) test_chain
     = (Inl (Error ''Transaction must include from and to address''), test_chain)"
    using addTransaction_rejects_empty_sender
          [of "Transaction_new 3 (JStr '''') (JStr ''04ab'') 100" test_lib test_chain,
           THEN conjunct1]
    by (simp add: Transaction_new_def)
  moreover
  have ok: "fst (addTransaction test_lib ?ok test_chain) = Inr ()"
    using test_chain_balance by (simp add: addTransaction_def tx_eval)
  moreover
  have "JStr ''04ab'' \<noteq> JNull"
    using addTransaction_rejects_empty_sender
          [of ?ok test_lib test_chain, THEN conjunct2, THEN conjunct1] ok
    by simp
  ultimately show ?thesis by simp
qed

subsection \<open>Mining the pending transactions\<close>

lemma getLatestBlock_nonempty:
  "chain bc \<noteq> [] \<Longrightarrow> getLatestBlock bc = Some (last (chain bc))"
  by (cases "chain bc") (simp_all add: getLatestBlock_def)

lemma minePendingTransactions_nonempty:
  assumes "chain bc \<noteq> []"
  shows "minePendingTransactions l now_tx now_block addr bc =
     (case mineBlock l (difficulty bc)
             (Block_new l now_block
                (pendingTransactions bc @ [Transaction_new now_tx JNull addr (miningReward bc)])
                (hash (last (chain bc)))) of
        None \<Rightarrow> None
      | Some block \<Rightarrow>
          Some (Inr (), bc\<lparr>chain := chain bc @ [block], pendingTransactions := []\<rparr>))"
  using assms
  by (simp add: minePendingTransactions_def Let_def getLatestBlock_nonempty split: option.splits)

lemma minePendingTransactions_empty:
  assumes "chain bc = []"
  shows "minePendingTransactions l now_tx now_block addr bc =
     Some (Inl (TypeError ''Cannot read properties of undefined (reading 'hash')''),
           bc\<lparr>pendingTransactions :=
                 pendingTransactions bc @ [Transaction_new now_tx JNull addr (miningReward bc)]\<rparr>)"
  using assms by (simp add: minePendingTransactions_def Let_def getLatestBlock_def)

text \<open>
  C4. On a chain that has a last block, a call of \<open>minePendingTransactions\<close> that returns
  has returned normally; the chain is the old one followed by exactly one new block, which
  is the result of mining, to the difficulty of the chain, the block built from the pending
  queue followed by one reward transaction (sender \<open>null\<close>, recipient the reward address,
  amount the mining reward) and from the hash of the old last block; the pending queue is
  empty, difficulty and reward are as before. The call returns exactly when some number of
  runs of the loop body of the search reaches the target.
\<close>

theorem minePendingTransactions_spec:
  assumes ne: "chain bc \<noteq> []"
    and rw: "rewardTx = Transaction_new now_tx JNull miningRewardAddress (miningReward bc)"
    and cd: "candidate = Block_new l now_block (pendingTransactions bc @ [rewardTx])
                           (hash (last (chain bc)))"
  shows "(\<forall>r bc'. minePendingTransactions l now_tx now_block miningRewardAddress bc = Some (r, bc')
            \<longrightarrow> r = Inr () \<and>
                (\<exists>block. mineBlock l (difficulty bc) candidate = Some block \<and>
                          chain bc' = chain bc @ [block] \<and>
                          transactions block = pendingTransactions bc @ [rewardTx] \<and>
                          previousHash block = hash (last (chain bc)) \<and>
                          take (difficulty bc) (hash block)
                            = replicate (difficulty bc) (CHR ''0'')) \<and>
                length (chain bc') = length (chain bc) + 1 \<and>
                pendingTransactions bc' = [] \<and>
                difficulty bc' = difficulty bc \<and> miningReward bc' = miningReward bc) \<and>
         ((\<exists>r bc'. minePendingTransactions l now_tx now_block miningRewardAddress bc
                      = Some (r, bc'))
            \<longleftrightarrow> (\<exists>k. take (difficulty bc) (hash ((mineBlock_body l ^^ k) candidate))
                        = replicate (difficulty bc) (CHR ''0''))) \<and>
         fromAddress rewardTx = JNull \<and> toAddress rewardTx = miningRewardAddress \<and>
         amount rewardTx = miningReward bc \<and> signature rewardTx = None"
proof -
  let ?call = "minePendingTransactions l now_tx now_block miningRewardAddress bc"
  have call: "?call =
     (case mineBlock l (difficulty bc) candidate of
        None \<Rightarrow> None
      | Some block \<Rightarrow>
          Some (Inr (), bc\<lparr>chain := chain bc @ [block], pendingTransactions := []\<rparr>))"
    unfolding cd rw by (rule minePendingTransactions_nonempty [OF ne])
  have post: "r = Inr () \<and>
        (\<exists>block. mineBlock l (difficulty bc) candidate = Some block \<and>
                  chain bc' = chain bc @ [block] \<and>
                  transactions block = pendingTransactions bc @ [rewardTx] \<and>
                  previousHash block = hash (last (chain bc)) \<and>
                  take (difficulty bc) (hash block) = replicate (difficulty bc) (CHR ''0'')) \<and>
        length (chain bc') = length (chain bc) + 1 \<and>
        pendingTransactions bc' = [] \<and>
        difficulty bc' = difficulty bc \<and> miningReward bc' = miningReward bc"
    if ret: "?call = Some (r, bc')" for r bc'
  proof -
    from ret call obtain block where m: "mineBlock l (difficulty bc) candidate = Some block"
      and r: "r = Inr ()"
      and bc': "bc' = bc\<lparr>chain := chain bc @ [block], pendingTransactions := []\<rparr>"
      by (auto split: option.splits)
    from mineBlock_Some_fields [OF m]
    have "transactions block = pendingTransactions bc @ [rewardTx]"
      and "previousHash block = hash (last (chain bc))"
      by (simp_all add: cd Block_new_def)
    moreover from m have "take (difficulty bc) (hash block) = replicate (difficulty bc) (CHR ''0'')"
      by (rule mineBlock_Some_zeros)
    ultimately show ?thesis using m r bc' by simp
  qed
  have returns: "(\<exists>r bc'. ?call = Some (r, bc'))
      \<longleftrightarrow> (\<exists>k. take (difficulty bc) (hash ((mineBlock_body l ^^ k) candidate))
                  = replicate (difficulty bc) (CHR ''0''))"
  proof
    assume "\<exists>r bc'. ?call = Some (r, bc')"
    then obtain r bc' where "?call = Some (r, bc')" by blast
    from post [OF this] obtain block
      where m: "mineBlock l (difficulty bc) candidate = Some block"
        and z: "take (difficulty bc) (hash block) = replicate (difficulty bc) (CHR ''0'')"
      by blast
    from mineBlock_Some_iterate [OF m] z
    show "\<exists>k. take (difficulty bc) (hash ((mineBlock_body l ^^ k) candidate))
                  = replicate (difficulty bc) (CHR ''0'')"
      by blast
  next
    assume "\<exists>k. take (difficulty bc) (hash ((mineBlock_body l ^^ k) candidate))
                  = replicate (difficulty bc) (CHR ''0'')"
    then obtain block where "mineBlock l (difficulty bc) candidate = Some block"
      using mineBlock_found by blast
    with call show "\<exists>r bc'. ?call = Some (r, bc')" by simp
  qed
  from post returns show ?thesis by (simp add: rw Transaction_new_def)
qed

lemmas chain_eval = Blockchain_new_def createGenesisBlock_def Transaction_new_def

theorem minePendingTransactions_spec_witness:
  "chain (Blockchain_new test_lib) \<noteq> [] \<and>
   minePendingTransactions test_lib 1 2 (JStr ''04ab'') (Blockchain_new test_lib)
     = Some (Inr (), test_chain) \<and>
   length (chain test_chain) = length (chain (Blockchain_new test_lib)) + 1 \<and>
   pendingTransactions test_chain = [] \<and>
   isChainValid test_lib (Blockchain_new test_lib) = Inr True"
proof -
  have ne: "chain (Blockchain_new test_lib) \<noteq> []"
    by (simp add: Blockchain_new_def)
  have run: "minePendingTransactions test_lib 1 2 (JStr ''04ab'') (Blockchain_new test_lib)
     = Some (Inr (), test_chain)"
    by (simp add: minePendingTransactions_def getLatestBlock_def chain_eval mine_eval
        test_chain_def)
  from minePendingTransactions_spec
      [OF ne refl refl, where l = test_lib and now_tx = 1 and now_block = 2
         and miningRewardAddress = "JStr ''04ab''"] run
  have "length (chain test_chain) = length (chain (Blockchain_new test_lib)) + 1 \<and>
        pendingTransactions test_chain = []"
    by blast
  moreover have "isChainValid test_lib (Blockchain_new test_lib) = Inr True"
    by (simp add: isChainValid_def Blockchain_new_def)
  ultimately show ?thesis using ne run by blast
qed

subsection \<open>Validating the chain\<close>

lemma isChainValid_loop_Cons:
  "isChainValid_loop l (b # bs)
     = Inl (TypeError ''currentBlock.hasValidTransactions is not a function'')"
  by (simp add: Block_call_def Block_method_def)

lemma isChainValid_genesis_Cons:
  "isChainValid l (bc\<lparr>chain := createGenesisBlock l # b # bs\<rparr>)
     = Inl (TypeError ''currentBlock.hasValidTransactions is not a function'')"
  by (simp add: isChainValid_def isChainValid_loop_Cons del: isChainValid_loop.simps)

lemma isChainValid_True_iff:
  "isChainValid l bc = Inr True \<longleftrightarrow>
     (\<exists>g. chain bc = [g] \<and> JSON_Block g = JSON_Block (createGenesisBlock l))"
  by (cases "chain bc"; cases "tl (chain bc)")
    (auto simp: isChainValid_def isChainValid_loop_Cons Let_def
          simp del: isChainValid_loop.simps(2))

lemma isChainValid_False_iff:
  "isChainValid l bc = Inr False \<longleftrightarrow>
     (chain bc = [] \<or>
      (\<exists>g rest. chain bc = g # rest \<and> JSON_Block g \<noteq> JSON_Block (createGenesisBlock l)))"
  by (cases "chain bc"; cases "tl (chain bc)")
    (auto simp: isChainValid_def isChainValid_loop_Cons Let_def
          simp del: isChainValid_loop.simps(2))

text \<open>
  C1. A chain of two or more blocks whose first block is the genesis block: whatever the
  transactions of its second block are changed to, \<open>isChainValid\<close> does not return false
  but throws the TypeError of the call \<open>currentBlock.hasValidTransactions()\<close>. Nor would
  the two checks of the loop see a changed amount: the recomputed hash of a block does not
  depend on its transactions, and a reward transaction is valid whatever its amount.
\<close>

theorem isChainValid_tampered_amount:
  "isChainValid l (bc\<lparr>chain := createGenesisBlock l # b\<lparr>transactions := txs\<rparr> # bs\<rparr>)
     = Inl (TypeError ''currentBlock.hasValidTransactions is not a function'') \<and>
   (hash (b\<lparr>transactions := txs\<rparr>) = Block_calculateHash l (b\<lparr>transactions := txs\<rparr>))
     = (hash b = Block_calculateHash l b) \<and>
   Transaction_isValid l ((Transaction_new now JNull addr reward)\<lparr>amount := v\<rparr>) = Inr True"
  by (simp add: isChainValid_genesis_Cons Block_calculateHash_def Transaction_isValid_def
      Transaction_new_def)

text \<open>
  C3. \<open>isChainValid\<close> never reads \<open>previousHash\<close>: on a chain of two or more blocks that
  starts with the genesis block it throws the TypeError, whatever the previous hash of the
  second block is. It returns true exactly on a chain of one block that serialises as the
  genesis block, and false exactly on an empty chain or on a first block that does not.
\<close>

theorem isChainValid_previousHash_unchecked:
  "isChainValid l (bc\<lparr>chain := createGenesisBlock l # b\<lparr>previousHash := p\<rparr> # bs\<rparr>)
     = Inl (TypeError ''currentBlock.hasValidTransactions is not a function'') \<and>
   (isChainValid l bc = Inr True)
     = (\<exists>g. chain bc = [g] \<and> JSON_Block g = JSON_Block (createGenesisBlock l)) \<and>
   (isChainValid l bc = Inr False)
     = (chain bc = [] \<or>
        (\<exists>g rest. chain bc = g # rest \<and> JSON_Block g \<noteq> JSON_Block (createGenesisBlock l)))"
  using isChainValid_True_iff [of l bc] isChainValid_False_iff [of l bc]
  by (simp add: isChainValid_genesis_Cons)

end
